theory Spec2Isabelle
  imports Complex_Main
begin

section \<open>Confidence intervals of correlation coefficients (correlation.py)\<close>

text \<open>
  The module has one function, \<open>corr\<close>, and four lookup tables. Everything it calls
  from numpy and scipy is an external capability and is a field of the record
  \<open>externals\<close>: the three scipy statistics, \<open>norm.ppf\<close>, \<open>np.random.choice\<close> and
  \<open>np.quantile\<close>.

  The code is modelled twice. First, Python floats are read as real numbers: \<open>+\<close>,
  \<open>-\<close>, \<open>*\<close>, \<open>/\<close>, \<open>np.log\<close>, \<open>np.exp\<close> and \<open>np.sqrt\<close> are the exact operations.
  Where numpy would leave the finite reals (a division of a numpy scalar by zero, the
  logarithm of a non-positive number, the square root of a negative number: a
  RuntimeWarning and \<open>inf\<close> or \<open>nan\<close>, no exception) the model stops with the marker
  \<open>FloatingPointError\<close>. Then the same code is given with every operation rounded to
  double precision (\<open>corr_double\<close>), for the properties that rounding decides.
\<close>

subsection \<open>Errors and external capabilities\<close>

datatype py_error =
    KeyError
  | TypeError
  | ZeroDivisionError
  | IndexError
  | ValueError
  | FloatingPointError
  | OtherError string

text \<open>
  A statistic function takes the two samples and the keyword arguments and returns
  the pair (coefficient, p-value), or raises.
\<close>

type_synonym 'k corr_fn = "real list \<Rightarrow> real list \<Rightarrow> 'k \<Rightarrow> py_error + (real \<times> real)"

text \<open>
  \<open>random_choice a replace (rows, cols) g\<close> is
  \<open>np.random.choice(a, replace=replace, size=(rows, cols))\<close> run on the state \<open>g\<close> of
  numpy's global generator: it returns the matrix of drawn elements, row by row, and
  the generator's next state.
\<close>

record ('k, 'g) externals =
  kendall_tau_scipy :: "'k corr_fn"
  spearman_rho_scipy :: "'k corr_fn"
  pearson_r_scipy :: "'k corr_fn"
  norm_ppf :: "real \<Rightarrow> real"
  random_choice :: "nat list \<Rightarrow> bool \<Rightarrow> nat \<times> nat \<Rightarrow> 'g \<Rightarrow> py_error + (nat list list \<times> 'g)"
  np_quantile :: "real list \<Rightarrow> real \<Rightarrow> py_error + real"

subsection \<open>The lookup tables (lines 80 to 93)\<close>

text \<open>The entry of \<open>customized\<close> in \<open>corr_functions\<close> is Python's \<open>None\<close>.\<close>

definition corr_functions :: "('k, 'g) externals \<Rightarrow> string \<rightharpoonup> 'k corr_fn option" where
  "corr_functions ext = map_of
     [(''kendall_tau'', Some (kendall_tau_scipy ext)),
      (''spearman_rho'', Some (spearman_rho_scipy ext)),
      (''pearson_r'', Some (pearson_r_scipy ext)),
      (''customized'', None)]"

definition param_corr_thres :: "string \<rightharpoonup> real" where
  "param_corr_thres = map_of
     [(''kendall_tau'', 0.8),
      (''spearman_rho'', 0.95),
      (''pearson_r'', 1),
      (''customized'', 0)]"

definition se_numerator_func :: "string \<rightharpoonup> (real \<Rightarrow> real)" where
  "se_numerator_func = map_of
     [(''kendall_tau'', \<lambda>r. 0.437),
      (''spearman_rho'', \<lambda>r. 1 + r ^ 2 / 2),
      (''pearson_r'', \<lambda>r. 1)]"

definition se_denominator_diff :: "string \<rightharpoonup> int" where
  "se_denominator_diff = map_of
     [(''kendall_tau'', 4),
      (''spearman_rho'', 3),
      (''pearson_r'', 3)]"

subsection \<open>Resolving the statistic function (lines 99 to 108)\<close>

text \<open>
  The result is the value bound to \<open>corr_func\<close>, which is \<open>None\<close> for the method
  \<open>customized\<close> with no function supplied: the key is in \<open>corr_functions\<close>.
\<close>

definition resolve_corr_func ::
  "('k, 'g) externals \<Rightarrow> string \<Rightarrow> 'k corr_fn option \<Rightarrow> py_error + 'k corr_fn option" where
  "resolve_corr_func ext method custom_corr_func =
     (if method = ''customized'' \<and> custom_corr_func \<noteq> None then Inr custom_corr_func
      else (case corr_functions ext method of
              Some f \<Rightarrow> Inr f
            | None \<Rightarrow> Inl KeyError))"

subsection \<open>The choice of the interval method (line 123)\<close>

datatype ci_path = NormalApproximation | Resampling

text \<open>
  \<open>and\<close> is short-circuit: the threshold table is read only when \<open>bootstrap\<close> is false.
\<close>

definition select_path :: "string \<Rightarrow> bool \<Rightarrow> real \<Rightarrow> py_error + ci_path" where
  "select_path method bootstrap corr_mean =
     (if \<not> bootstrap then
        (case param_corr_thres method of
           None \<Rightarrow> Inl KeyError
         | Some thres \<Rightarrow>
             if \<bar>corr_mean\<bar> < thres then Inr NormalApproximation else Inr Resampling)
      else Inr Resampling)"

subsection \<open>The normal approximation (lines 128 to 136)\<close>

text \<open>
  The two table lookups raise \<open>KeyError\<close> on a missing key. The quotient under the
  square root divides a Python number by the Python integer \<open>sample_size - d\<close> for
  \<open>kendall_tau\<close> and \<open>pearson_r\<close> (ZeroDivisionError when it is zero), and a numpy
  scalar by it for \<open>spearman_rho\<close> (no exception: \<open>inf\<close>). The quotient of line 128
  divides numpy scalars.
\<close>

definition normal_approx_ci ::
  "('k, 'g) externals \<Rightarrow> string \<Rightarrow> real \<Rightarrow> nat \<Rightarrow> real \<Rightarrow> py_error + (real \<times> real)" where
  "normal_approx_ci ext method corr_mean sample_size alpha =
     (case se_numerator_func method of
        None \<Rightarrow> Inl KeyError
      | Some numerator \<Rightarrow>
     (case se_denominator_diff method of
        None \<Rightarrow> Inl KeyError
      | Some d \<Rightarrow>
          let den = int sample_size - d in
          if den = 0 \<and> method \<noteq> ''spearman_rho'' then Inl ZeroDivisionError
          else if 1 - corr_mean = 0 \<or> (1 + corr_mean) / (1 - corr_mean) \<le> 0
                  \<or> den = 0 \<or> numerator corr_mean / real_of_int den < 0
          then Inl FloatingPointError
          else
            let z = ln ((1 + corr_mean) / (1 - corr_mean)) / 2;
                se = sqrt (numerator corr_mean / real_of_int den);
                z_lower = z - norm_ppf ext (1 - alpha / 2) * se;
                z_upper = z + norm_ppf ext (1 - alpha / 2) * se;
                corr_lower = (exp (2 * z_lower) - 1) / (exp (2 * z_lower) + 1);
                corr_upper = (exp (2 * z_upper) - 1) / (exp (2 * z_upper) + 1)
            in Inr (corr_lower, corr_upper)))"

subsection \<open>The bootstrap (lines 142 to 148)\<close>

text \<open>\<open>a[idx]\<close> for a one-dimensional array and a matrix of indices.\<close>

definition np_take :: "real list \<Rightarrow> nat list list \<Rightarrow> py_error + real list list" where
  "np_take a idx =
     (if list_all (list_all (\<lambda>i. i < length a)) idx then Inr (map (map (nth a)) idx)
      else Inl IndexError)"

definition py_nth :: "'a list \<Rightarrow> nat \<Rightarrow> py_error + 'a" where
  "py_nth xs i = (if i < length xs then Inr (xs ! i) else Inl IndexError)"

text \<open>
  The list comprehension of lines 145 and 146, over the indices \<open>range(bootstrap_samples)\<close>:
  the statistic of row \<open>i\<close> of both resampled matrices, of which the coefficient is kept.
\<close>

fun bootstrap_loop ::
  "'k corr_fn \<Rightarrow> real list list \<Rightarrow> real list list \<Rightarrow> 'k \<Rightarrow> nat list \<Rightarrow> py_error + real list" where
  "bootstrap_loop corr_func bootstrap_x bootstrap_y kwargs [] = Inr []"
| "bootstrap_loop corr_func bootstrap_x bootstrap_y kwargs (i # is) =
     (case py_nth bootstrap_x i of
        Inl e \<Rightarrow> Inl e
      | Inr xi \<Rightarrow>
     (case py_nth bootstrap_y i of
        Inl e \<Rightarrow> Inl e
      | Inr yi \<Rightarrow>
     (case corr_func xi yi kwargs of
        Inl e \<Rightarrow> Inl e
      | Inr r \<Rightarrow>
     (case bootstrap_loop corr_func bootstrap_x bootstrap_y kwargs is of
        Inl e \<Rightarrow> Inl e
      | Inr rs \<Rightarrow> Inr (fst r # rs)))))"

definition bootstrap_ci ::
  "('k, 'g) externals \<Rightarrow> 'k corr_fn \<Rightarrow> real list \<Rightarrow> real list \<Rightarrow> 'k \<Rightarrow> nat \<Rightarrow> nat \<Rightarrow> real \<Rightarrow> 'g
     \<Rightarrow> (py_error + (real \<times> real)) \<times> 'g" where
  "bootstrap_ci ext corr_func x y kwargs sample_size bootstrap_samples alpha g =
     (case random_choice ext [0..<sample_size] True (bootstrap_samples, sample_size) g of
        Inl e \<Rightarrow> (Inl e, g)
      | Inr (new_idx, g') \<Rightarrow>
     (case np_take x new_idx of
        Inl e \<Rightarrow> (Inl e, g')
      | Inr bootstrap_x \<Rightarrow>
     (case np_take y new_idx of
        Inl e \<Rightarrow> (Inl e, g')
      | Inr bootstrap_y \<Rightarrow>
     (case bootstrap_loop corr_func bootstrap_x bootstrap_y kwargs [0..<bootstrap_samples] of
        Inl e \<Rightarrow> (Inl e, g')
      | Inr bootstrap_corrs \<Rightarrow>
     (case np_quantile ext bootstrap_corrs (alpha / 2) of
        Inl e \<Rightarrow> (Inl e, g')
      | Inr corr_lower \<Rightarrow>
     (case np_quantile ext bootstrap_corrs (1 - alpha / 2) of
        Inl e \<Rightarrow> (Inl e, g')
      | Inr corr_upper \<Rightarrow> (Inr (corr_lower, corr_upper), g')))))))"

subsection \<open>corr (lines 96 to 150)\<close>

text \<open>
  The arguments follow the Python signature; \<open>kwargs\<close> is the dictionary of the extra
  keyword arguments and \<open>g\<close> the state of the global random generator. The result is
  the raised error or the returned 4-tuple, \<open>None\<close> for Python's \<open>None\<close>, and the
  generator's state after the call. Calling \<open>None\<close> raises \<open>TypeError\<close>. The samples
  are one-dimensional, so \<open>np.asarray(x).ravel()\<close> is \<open>x\<close>.
\<close>

type_synonym corr_result = "real \<times> real option \<times> real option \<times> real"

text \<open>Line 150, reached from both branches with the two bounds.\<close>

definition return_tuple ::
  "real \<Rightarrow> real \<Rightarrow> (py_error + (real \<times> real)) \<times> 'g \<Rightarrow> (py_error + corr_result) \<times> 'g" where
  "return_tuple corr_mean p_value r =
     (case r of
        (Inl e, g') \<Rightarrow> (Inl e, g')
      | (Inr (corr_lower, corr_upper), g') \<Rightarrow>
          (Inr (corr_mean, Some corr_lower, Some corr_upper, p_value), g'))"

definition corr ::
  "('k, 'g) externals \<Rightarrow> real list \<Rightarrow> real list \<Rightarrow> string \<Rightarrow> bool \<Rightarrow> real \<Rightarrow> real option
     \<Rightarrow> nat \<Rightarrow> bool \<Rightarrow> 'k corr_fn option \<Rightarrow> 'k \<Rightarrow> 'g \<Rightarrow> (py_error + corr_result) \<times> 'g" where
  "corr ext x y method skip_ci alpha ci bootstrap_samples bootstrap custom_corr_func kwargs g =
     (case resolve_corr_func ext method custom_corr_func of
        Inl e \<Rightarrow> (Inl e, g)
      | Inr None \<Rightarrow> (Inl TypeError, g)
      | Inr (Some corr_func) \<Rightarrow>
     (case corr_func x y kwargs of
        Inl e \<Rightarrow> (Inl e, g)
      | Inr (corr_mean, p_value) \<Rightarrow>
          if skip_ci then (Inr (corr_mean, None, None, p_value), g)
          else if \<bar>corr_mean\<bar> = 1 then
            (Inr (corr_mean, Some corr_mean, Some corr_mean, p_value), g)
          else
            let alpha = (case ci of Some c \<Rightarrow> 1 - c | None \<Rightarrow> alpha);
                sample_size = length x
            in
            (case select_path method bootstrap corr_mean of
               Inl e \<Rightarrow> (Inl e, g)
             | Inr NormalApproximation \<Rightarrow>
                 return_tuple corr_mean p_value
                   (normal_approx_ci ext method corr_mean sample_size alpha, g)
             | Inr Resampling \<Rightarrow>
                 return_tuple corr_mean p_value
                   (bootstrap_ci ext corr_func x y kwargs sample_size bootstrap_samples alpha g))))"

subsection \<open>The specification's formulas\<close>


definition effective_alpha :: "real \<Rightarrow> real option \<Rightarrow> real" where
  "effective_alpha alpha ci = (case ci of None \<Rightarrow> alpha | Some c \<Rightarrow> 1 - c)"

definition fisher_z :: "real \<Rightarrow> real" where
  "fisher_z c = 0.5 * ln ((1 + c) / (1 - c))"

definition spec_numerator :: "string \<Rightarrow> real \<Rightarrow> real" where
  "spec_numerator method c =
     (if method = ''kendall_tau'' then 0.437
      else if method = ''spearman_rho'' then 1 + c ^ 2 / 2
      else 1)"

definition spec_offset :: "string \<Rightarrow> nat" where
  "spec_offset method = (if method = ''kendall_tau'' then 4 else 3)"

definition spec_se :: "string \<Rightarrow> real \<Rightarrow> nat \<Rightarrow> real" where
  "spec_se method c n = sqrt (spec_numerator method c / (real n - real (spec_offset method)))"

definition inverse_fisher :: "real \<Rightarrow> real" where
  "inverse_fisher z = (exp (2 * z) - 1) / (exp (2 * z) + 1)"

subsection \<open>A concrete environment\<close>

text \<open>
  Stand-ins for the external capabilities, for evaluating \<open>corr\<close> on concrete inputs.
  \<open>tau_a\<close> is Kendall's tau-a (concordant minus discordant pairs over all pairs, which
  is scipy's tau-b on samples without ties) with a fixed p-value; the generator's
  state is the list of the indices it will draw next; \<open>linear_quantile\<close> is the
  quantile by linear interpolation between the two nearest order statistics, the
  default of \<open>np.quantile\<close>; \<open>ppf_table\<close> holds two tabulated values of the standard
  normal quantile.
\<close>

fun concordance :: "(real \<times> real) list \<Rightarrow> real" where
  "concordance [] = 0"
| "concordance (p # ps) =
     sum_list (map (\<lambda>q. sgn ((fst q - fst p) * (snd q - snd p))) ps) + concordance ps"

definition tau_a :: "unit corr_fn" where
  "tau_a x y kwargs =
     (if length x \<noteq> length y \<or> length x < 2 then Inl ValueError
      else Inr (concordance (zip x y) / (real (length x) * (real (length x) - 1) / 2), 1 / 2))"

definition unavailable :: "unit corr_fn" where
  "unavailable x y kwargs = Inl (OtherError ''unavailable'')"

definition replay_choice ::
  "nat list \<Rightarrow> bool \<Rightarrow> nat \<times> nat \<Rightarrow> nat list \<Rightarrow> py_error + (nat list list \<times> nat list)" where
  "replay_choice a replace shape g =
     (case shape of (rows, cols) \<Rightarrow>
        if replace \<and> rows * cols \<le> length g
           \<and> list_all (\<lambda>i. i \<in> set a) (take (rows * cols) g)
        then Inr (map (\<lambda>r. take cols (drop (r * cols) g)) [0..<rows], drop (rows * cols) g)
        else Inl ValueError)"

definition linear_quantile :: "real list \<Rightarrow> real \<Rightarrow> py_error + real" where
  "linear_quantile a q =
     (if q < 0 \<or> 1 < q then Inl ValueError
      else if a = [] then Inl IndexError
      else
        let s = sort a;
            h = q * real (length a - 1);
            j = nat \<lfloor>h\<rfloor>;
            lo = s ! j;
            hi = s ! min (j + 1) (length a - 1)
        in Inr (lo + (h - real j) * (hi - lo)))"

definition ppf_table :: "real \<Rightarrow> real" where
  "ppf_table p = (if p = 0.975 then 1.959964 else if p = 0.995 then 2.575829 else 0)"

definition demo_ext :: "(unit, nat list) externals" where
  "demo_ext =
     \<lparr>kendall_tau_scipy = tau_a,
      spearman_rho_scipy = unavailable,
      pearson_r_scipy = unavailable,
      norm_ppf = ppf_table,
      random_choice = replay_choice,
      np_quantile = linear_quantile\<rparr>"

section \<open>The same code in double precision\<close>

text \<open>
  The code computes in IEEE double precision. \<open>fl\<close> rounds a real number to the nearest
  double, ties to even, for the normal range (overflow and subnormal numbers are not
  modelled); a Python literal such as \<open>0.95\<close> is the double \<open>fl 0.95\<close>, and every
  arithmetic operation of the code is the exact operation followed by \<open>fl\<close>. The
  definitions below repeat \<open>normal_approx_ci\<close>, \<open>bootstrap_ci\<close> and \<open>corr\<close> with this
  arithmetic; \<open>np.log\<close>, \<open>np.sqrt\<close> and \<open>np.exp\<close> are external and return doubles.
\<close>

fun bit_length :: "nat \<Rightarrow> nat" where
  "bit_length n = (if n = 0 then 0 else Suc (bit_length (n div 2)))"

declare bit_length.simps [simp del]

text \<open>For \<open>x > 0\<close>, the exponent \<open>e\<close> with \<open>2\<^sup>e \<le> x < 2\<^sup>e\<^sup>+\<^sup>1\<close>.\<close>

definition binade :: "real \<Rightarrow> int" where
  "binade x =
     (if 1 \<le> x then int (bit_length (nat \<lfloor>x\<rfloor>)) - 1
      else - int (bit_length (nat (\<lceil>1 / x\<rceil> - 1))))"

definition pow2 :: "int \<Rightarrow> real" where
  "pow2 e = (if 0 \<le> e then 2 ^ nat e else 1 / 2 ^ nat (- e))"

text \<open>Rounding to the nearest integer, ties to the even one.\<close>

definition rne :: "real \<Rightarrow> int" where
  "rne r =
     (let f = \<lfloor>r\<rfloor>; d = r - of_int f
      in if d < 1 / 2 then f else if 1 / 2 < d then f + 1 else if even f then f else f + 1)"

definition fl :: "real \<Rightarrow> real" where
  "fl x = (if x = 0 then 0 else let u = pow2 (binade \<bar>x\<bar> - 52) in of_int (rne (x / u)) * u)"

record libm =
  np_log :: "real \<Rightarrow> real"
  np_sqrt :: "real \<Rightarrow> real"
  np_exp :: "real \<Rightarrow> real"

definition se_numerator_func_double :: "string \<rightharpoonup> (real \<Rightarrow> real)" where
  "se_numerator_func_double = map_of
     [(''kendall_tau'', \<lambda>r. fl 0.437),
      (''spearman_rho'', \<lambda>r. fl (1 + fl (fl (r ^ 2) / 2))),
      (''pearson_r'', \<lambda>r. 1)]"

definition normal_approx_ci_double ::
  "libm \<Rightarrow> ('k, 'g) externals \<Rightarrow> string \<Rightarrow> real \<Rightarrow> nat \<Rightarrow> real \<Rightarrow> py_error + (real \<times> real)" where
  "normal_approx_ci_double lm ext method corr_mean sample_size alpha =
     (case se_numerator_func_double method of
        None \<Rightarrow> Inl KeyError
      | Some numerator \<Rightarrow>
     (case se_denominator_diff method of
        None \<Rightarrow> Inl KeyError
      | Some d \<Rightarrow>
          let den = int sample_size - d in
          if den = 0 \<and> method \<noteq> ''spearman_rho'' then Inl ZeroDivisionError
          else if fl (1 - corr_mean) = 0 \<or> fl (fl (1 + corr_mean) / fl (1 - corr_mean)) \<le> 0
                  \<or> den = 0 \<or> fl (numerator corr_mean / real_of_int den) < 0
          then Inl FloatingPointError
          else
            let z = fl (np_log lm (fl (fl (1 + corr_mean) / fl (1 - corr_mean))) / 2);
                se = np_sqrt lm (fl (numerator corr_mean / real_of_int den));
                z_lower = fl (z - fl (norm_ppf ext (fl (1 - fl (alpha / 2))) * se));
                z_upper = fl (z + fl (norm_ppf ext (fl (1 - fl (alpha / 2))) * se));
                corr_lower = fl (fl (np_exp lm (fl (2 * z_lower)) - 1)
                                 / fl (np_exp lm (fl (2 * z_lower)) + 1));
                corr_upper = fl (fl (np_exp lm (fl (2 * z_upper)) - 1)
                                 / fl (np_exp lm (fl (2 * z_upper)) + 1))
            in Inr (corr_lower, corr_upper)))"

definition bootstrap_ci_double ::
  "('k, 'g) externals \<Rightarrow> 'k corr_fn \<Rightarrow> real list \<Rightarrow> real list \<Rightarrow> 'k \<Rightarrow> nat \<Rightarrow> nat \<Rightarrow> real \<Rightarrow> 'g
     \<Rightarrow> (py_error + (real \<times> real)) \<times> 'g" where
  "bootstrap_ci_double ext corr_func x y kwargs sample_size bootstrap_samples alpha g =
     (case random_choice ext [0..<sample_size] True (bootstrap_samples, sample_size) g of
        Inl e \<Rightarrow> (Inl e, g)
      | Inr (new_idx, g') \<Rightarrow>
     (case np_take x new_idx of
        Inl e \<Rightarrow> (Inl e, g')
      | Inr bootstrap_x \<Rightarrow>
     (case np_take y new_idx of
        Inl e \<Rightarrow> (Inl e, g')
      | Inr bootstrap_y \<Rightarrow>
     (case bootstrap_loop corr_func bootstrap_x bootstrap_y kwargs [0..<bootstrap_samples] of
        Inl e \<Rightarrow> (Inl e, g')
      | Inr bootstrap_corrs \<Rightarrow>
     (case np_quantile ext bootstrap_corrs (fl (alpha / 2)) of
        Inl e \<Rightarrow> (Inl e, g')
      | Inr corr_lower \<Rightarrow>
     (case np_quantile ext bootstrap_corrs (fl (1 - fl (alpha / 2))) of
        Inl e \<Rightarrow> (Inl e, g')
      | Inr corr_upper \<Rightarrow> (Inr (corr_lower, corr_upper), g')))))))"

definition corr_double ::
  "libm \<Rightarrow> ('k, 'g) externals \<Rightarrow> real list \<Rightarrow> real list \<Rightarrow> string \<Rightarrow> bool \<Rightarrow> real \<Rightarrow> real option
     \<Rightarrow> nat \<Rightarrow> bool \<Rightarrow> 'k corr_fn option \<Rightarrow> 'k \<Rightarrow> 'g \<Rightarrow> (py_error + corr_result) \<times> 'g" where
  "corr_double lm ext x y method skip_ci alpha ci bootstrap_samples bootstrap custom_corr_func
       kwargs g =
     (case resolve_corr_func ext method custom_corr_func of
        Inl e \<Rightarrow> (Inl e, g)
      | Inr None \<Rightarrow> (Inl TypeError, g)
      | Inr (Some corr_func) \<Rightarrow>
     (case corr_func x y kwargs of
        Inl e \<Rightarrow> (Inl e, g)
      | Inr (corr_mean, p_value) \<Rightarrow>
          if skip_ci then (Inr (corr_mean, None, None, p_value), g)
          else if \<bar>corr_mean\<bar> = 1 then
            (Inr (corr_mean, Some corr_mean, Some corr_mean, p_value), g)
          else
            let alpha = (case ci of Some c \<Rightarrow> fl (1 - c) | None \<Rightarrow> alpha);
                sample_size = length x
            in
            (case select_path method bootstrap corr_mean of
               Inl e \<Rightarrow> (Inl e, g)
             | Inr NormalApproximation \<Rightarrow>
                 return_tuple corr_mean p_value
                   (normal_approx_ci_double lm ext method corr_mean sample_size alpha, g)
             | Inr Resampling \<Rightarrow>
                 return_tuple corr_mean p_value
                   (bootstrap_ci_double ext corr_func x y kwargs sample_size bootstrap_samples
                      alpha g))))"

subsection \<open>A concrete environment in double precision\<close>

text \<open>
  \<open>tau_a_double\<close> is \<open>tau_a\<close> with the coefficient rounded. \<open>near_one\<close> stands for
  \<open>pearsonr\<close> on almost collinear samples: it reports the coefficient \<open>1 - 2\<^sup>-\<^sup>5\<^sup>0\<close>, a
  double below 1. \<open>linear_quantile_double\<close> is the linear interpolation as numpy
  computes it: the index \<open>(n - 1) * q\<close>, its integer and fractional part, and the
  interpolation from the lower neighbour, or from the upper one when the fraction is
  at least one half. The tables hold the values of the normal quantile and of the C
  library's \<open>log\<close>, \<open>sqrt\<close> and \<open>exp\<close> at the arguments of the example below.
\<close>

definition tau_a_double :: "unit corr_fn" where
  "tau_a_double x y kwargs =
     (case tau_a x y kwargs of
        Inl e \<Rightarrow> Inl e
      | Inr (c, p) \<Rightarrow> Inr (fl c, fl p))"

definition near_one :: "unit corr_fn" where
  "near_one x y kwargs =
     (if length x \<noteq> length y \<or> length x < 2 then Inl ValueError
      else Inr (1 - 1 / 2 ^ 50, 1 / 2 ^ 50))"

definition linear_quantile_double :: "real list \<Rightarrow> real \<Rightarrow> py_error + real" where
  "linear_quantile_double a q =
     (if q < 0 \<or> 1 < q then Inl ValueError
      else if a = [] then Inl IndexError
      else
        let s = sort a;
            h = fl (real (length a - 1) * q);
            j = nat \<lfloor>h\<rfloor>;
            t = fl (h - real j);
            lo = s ! j;
            hi = s ! min (j + 1) (length a - 1);
            diff_b_a = fl (hi - lo)
        in if 1 / 2 \<le> t then Inr (fl (hi - fl (diff_b_a * fl (1 - t))))
           else Inr (fl (lo + fl (diff_b_a * t))))"

definition ppf_double :: "real \<Rightarrow> real" where
  "ppf_double p =
     (if p = 8782019273372467 / 9007199254740992 then 2206723267608545 / 1125899906842624
      else 0)"

definition log_table :: "real \<Rightarrow> real" where
  "log_table x = (if x = 2251799813685247 then 4975141455881771 / 140737488355328 else 0)"

definition sqrt_table :: "real \<Rightarrow> real" where
  "sqrt_table x = (if x = 1 / 2 then 6369051672525773 / 9007199254740992 else 0)"

definition exp_table :: "real \<Rightarrow> real" where
  "exp_table x =
     (if x = 573130526149967 / 17592186044416 then 4507118644002591 / 32
      else if x = 2682619351281903 / 70368744177664 then 36000666866208408
      else 0)"

definition demo_libm :: libm where
  "demo_libm = \<lparr>np_log = log_table, np_sqrt = sqrt_table, np_exp = exp_table\<rparr>"

definition demo_ext_double :: "(unit, nat list) externals" where
  "demo_ext_double =
     \<lparr>kendall_tau_scipy = tau_a_double,
      spearman_rho_scipy = unavailable,
      pearson_r_scipy = near_one,
      norm_ppf = ppf_double,
      random_choice = replay_choice,
      np_quantile = linear_quantile_double\<rparr>"

section \<open>Properties\<close>

subsection \<open>The tables and the method\<close>

lemma corr_functions_keys:
  "corr_functions ext method \<noteq> None \<longleftrightarrow>
     method = ''kendall_tau'' \<or> method = ''spearman_rho'' \<or> method = ''pearson_r'' \<or> method = ''customized''"
  by (simp add: corr_functions_def)



lemma normal_path_method:
  assumes "select_path method bootstrap c = Inr NormalApproximation"
  shows "\<not> bootstrap \<and> \<bar>c\<bar> < 1
       \<and> (method = ''kendall_tau'' \<or> method = ''spearman_rho'' \<or> method = ''pearson_r'')"
  using assms
  by (auto simp: select_path_def param_corr_thres_def split: if_splits)

lemma resolve_customized: "resolve_corr_func ext ''customized'' (Some f) = Inr (Some f)"
  by (simp add: resolve_corr_func_def)

lemma corr_KeyError_unknown:
  assumes "method \<noteq> ''kendall_tau''" "method \<noteq> ''spearman_rho''" "method \<noteq> ''pearson_r''" "method \<noteq> ''customized''"
  shows "corr ext x y method skip_ci alpha ci bootstrap_samples bootstrap custom_corr_func kwargs g = (Inl KeyError, g)"
  using assms by (simp add: corr_def resolve_corr_func_def corr_functions_def)

subsection \<open>The transform and its inverse, in exact arithmetic\<close>

text \<open>
  Over the reals the inverse transform undoes the transform, is monotone and takes its
  values strictly between \<open>-1\<close> and \<open>1\<close>.
\<close>

lemma inverse_fisher_fisher_z:
  assumes "\<bar>c\<bar> < 1"
  shows "inverse_fisher (fisher_z c) = c"
proof -
  have pos: "0 < (1 + c) / (1 - c)" using assms by simp
  have "exp (2 * fisher_z c) = (1 + c) / (1 - c)"
    using pos by (simp add: fisher_z_def)
  moreover have "((1 + c) / (1 - c) - 1) / ((1 + c) / (1 - c) + 1) = c"
    using assms by (simp add: field_simps)
  ultimately show ?thesis by (simp add: inverse_fisher_def)
qed

lemma inverse_fisher_alt: "inverse_fisher z = 1 - 2 / (exp (2 * z) + 1)"
proof -
  have "exp (2 * z) + 1 \<noteq> 0"
    using exp_gt_zero [of "2 * z"] by linarith
  then show ?thesis by (simp add: inverse_fisher_def field_simps)
qed

lemma inverse_fisher_mono:
  assumes "a \<le> b"
  shows "inverse_fisher a \<le> inverse_fisher b"
proof -
  have le: "exp (2 * a) + 1 \<le> exp (2 * b) + 1" using assms by simp
  have pos: "0 < exp (2 * a) + 1"
    using exp_gt_zero [of "2 * a"] by linarith
  have posb: "0 < exp (2 * b) + 1"
    using exp_gt_zero [of "2 * b"] by linarith
  have "2 / (exp (2 * b) + 1) \<le> 2 / (exp (2 * a) + 1)"
    using le pos posb by (intro divide_left_mono mult_pos_pos) simp_all
  then show ?thesis by (simp add: inverse_fisher_alt)
qed

lemma inverse_fisher_range: "- 1 < inverse_fisher z \<and> inverse_fisher z < 1"
proof -
  have pos: "0 < exp (2 * z)" by simp
  then have "0 < 2 / (exp (2 * z) + 1)" by (simp add: add_pos_pos)
  moreover have "2 / (exp (2 * z) + 1) < 2 / 1"
    using pos by (intro divide_strict_left_mono) (simp_all add: add_pos_pos)
  ultimately show ?thesis by (simp add: inverse_fisher_alt)
qed

lemma normal_approx_ci_spec:
  assumes m: "method = ''kendall_tau'' \<or> method = ''spearman_rho'' \<or> method = ''pearson_r''"
    and n: "spec_offset method < n"
    and c: "\<bar>c\<bar> < 1"
  shows "normal_approx_ci ext method c n a =
           Inr (inverse_fisher (fisher_z c - norm_ppf ext (1 - a / 2) * spec_se method c n),
                inverse_fisher (fisher_z c + norm_ppf ext (1 - a / 2) * spec_se method c n))"
proof -
  have q: "1 - c \<noteq> 0" "\<not> (1 + c) / (1 - c) \<le> 0" using c by (auto simp: field_simps)
  have num: "se_numerator_func method = Some (spec_numerator method)"
    using m by (auto simp: se_numerator_func_def spec_numerator_def fun_eq_iff)
  have den: "se_denominator_diff method = Some (int (spec_offset method))"
    using m by (auto simp: se_denominator_diff_def spec_offset_def)
  have dpos: "0 < int n - int (spec_offset method)" using n by simp
  have npos: "0 \<le> spec_numerator method c" by (simp add: spec_numerator_def)
  have quot: "\<not> spec_numerator method c / real_of_int (int n - int (spec_offset method)) < 0"
    using dpos npos by (simp add: not_less)
  show ?thesis
    using q dpos quot
    by (simp add: normal_approx_ci_def num den Let_def inverse_fisher_def fisher_z_def spec_se_def)
qed

subsection \<open>The bootstrap loop\<close>

lemma bootstrap_loop_rows:
  assumes "map (\<lambda>row. f (fx row) (fy row) kw) rows = map Inr stats"
    and "\<forall>i\<in>set js. i < length rows"
  shows "bootstrap_loop f (map fx rows) (map fy rows) kw js = Inr (map (\<lambda>i. fst (stats ! i)) js)"
  using assms(2)
proof (induction js)
  case Nil
  then show ?case by simp
next
  case (Cons i js)
  then have i: "i < length rows" by simp
  have len: "length stats = length rows"
    using assms(1) by (metis length_map)
  have "map (\<lambda>row. f (fx row) (fy row) kw) rows ! i = map Inr stats ! i"
    using assms(1) by simp
  then have "f (fx (rows ! i)) (fy (rows ! i)) kw = Inr (stats ! i)"
    using i len by simp
  then show ?case using Cons i by (simp add: py_nth_def)
qed

lemma bootstrap_loop_all_rows:
  assumes "map (\<lambda>row. f (fx row) (fy row) kw) rows = map Inr stats"
  shows "bootstrap_loop f (map fx rows) (map fy rows) kw [0..<length rows] = Inr (map fst stats)"
proof -
  have len: "length stats = length rows"
    using assms by (metis length_map)
  have "map (\<lambda>i. fst (stats ! i)) [0..<length rows] = map fst (map (nth stats) [0..<length stats])"
    by (simp add: len)
  also have "\<dots> = map fst stats" by (simp only: map_nth)
  finally show ?thesis
    using bootstrap_loop_rows [of f fx fy kw rows stats "[0..<length rows]"] assms by simp
qed

subsection \<open>The concrete environment, evaluated\<close>

lemma tau_a_sample: "tau_a [1, 2, 3, 4, 5] [1, 3, 2, 5, 4] () = Inr (3 / 5, 1 / 2)"
  by (simp add: tau_a_def)

lemma tau_a_resample_1: "tau_a [1, 2, 4, 4, 4] [1, 3, 5, 5, 5] () = Inr (7 / 10, 1 / 2)"
  by (simp add: tau_a_def)

lemma tau_a_resample_2: "tau_a [1, 1, 2, 4, 4] [1, 1, 3, 5, 5] () = Inr (4 / 5, 1 / 2)"
  by (simp add: tau_a_def)

lemma resolve_demo_kendall: "resolve_corr_func demo_ext ''kendall_tau'' None = Inr (Some tau_a)"
  by (simp add: resolve_corr_func_def corr_functions_def demo_ext_def)

lemma select_demo_normal: "select_path ''kendall_tau'' False (3 / 5) = Inr NormalApproximation"
  by (simp add: select_path_def param_corr_thres_def)

lemma select_demo_bootstrap: "select_path ''kendall_tau'' True (3 / 5) = Inr Resampling"
  by (simp add: select_path_def)

lemma boot_sample:
  "bootstrap_ci demo_ext tau_a [1, 2, 3, 4, 5] [1, 3, 2, 5, 4] () 5 2 (1 / 20)
     [0, 1, 3, 3, 3, 0, 0, 1, 3, 3] = (Inr (281 / 400, 319 / 400), [])"
proof -
  have rc: "random_choice demo_ext [0..<5] True (2, 5) [0, 1, 3, 3, 3, 0, 0, 1, 3, 3] =
              Inr ([[0, 1, 3, 3, 3], [0, 0, 1, 3, 3]], [])"
    by (simp add: demo_ext_def replay_choice_def upt_rec)
  have tx: "np_take [1, 2, 3, 4, 5] [[0, 1, 3, 3, 3], [0, 0, 1, 3, 3]] =
              Inr [[1, 2, 4, 4, 4], [1, 1, 2, 4, 4]]"
    by (simp add: np_take_def)
  have ty: "np_take [1, 3, 2, 5, 4] [[0, 1, 3, 3, 3], [0, 0, 1, 3, 3]] =
              Inr [[1, 3, 5, 5, 5], [1, 1, 3, 5, 5]]"
    by (simp add: np_take_def)
  have loop: "bootstrap_loop tau_a [[1, 2, 4, 4, 4], [1, 1, 2, 4, 4]]
                [[1, 3, 5, 5, 5], [1, 1, 3, 5, 5]] () [0..<2] = Inr [7 / 10, 4 / 5]"
    by (simp add: upt_rec py_nth_def tau_a_resample_1 tau_a_resample_2)
  have q1: "np_quantile demo_ext [7 / 10, 4 / 5] (1 / 20 / 2) = Inr (281 / 400)"
    by (simp add: demo_ext_def linear_quantile_def Let_def)
  have q2: "np_quantile demo_ext [7 / 10, 4 / 5] (1 - 1 / 20 / 2) = Inr (319 / 400)"
    by (simp add: demo_ext_def linear_quantile_def Let_def)
  show ?thesis
    unfolding bootstrap_ci_def
    by (simp only: rc tx ty loop q1 q2 sum.case prod.case)
qed

subsection \<open>Double precision, evaluated\<close>

lemmas fl_eval = fl_def binade_def pow2_def rne_def Let_def bit_length.simps

text \<open>
  A double \<open>E\<close> of the binade from \<open>2\<^sup>5\<^sup>4\<close> absorbs \<open>1\<close>: \<open>E - 1\<close> and \<open>E + 1\<close> round to \<open>E\<close>,
  and lines 135 and 136 compute \<open>1\<close> from it, whatever the value of \<open>np.exp\<close> in that
  binade is.
\<close>

lemma bit_length_eqI:
  "2 ^ k \<le> n \<Longrightarrow> n < 2 ^ Suc k \<Longrightarrow> bit_length n = Suc k"
proof (induction k arbitrary: n)
  case 0
  then have "n = 1" by simp
  then show ?case by (simp add: bit_length.simps)
next
  case (Suc k)
  have "2 ^ k \<le> n div 2" using Suc.prems(1) by simp
  moreover have "n div 2 < 2 ^ Suc k" using Suc.prems(2) by simp
  ultimately have "bit_length (n div 2) = Suc k" by (rule Suc.IH)
  moreover have "n \<noteq> 0"
  proof
    assume "n = 0"
    then have "(2::nat) ^ Suc k \<le> 0" using Suc.prems(1) by simp
    then show False by simp
  qed
  ultimately show ?case by (subst bit_length.simps) simp
qed

lemma binade_eqI:
  assumes "2 ^ k \<le> x" and "x < 2 ^ Suc k"
  shows "binade x = int k"
proof -
  have one: "1 \<le> x" using assms(1) one_le_power [of "2::real" k] by linarith
  have lo: "2 ^ k \<le> nat \<lfloor>x\<rfloor>"
  proof -
    have "(2::int) ^ k \<le> \<lfloor>x\<rfloor>" using assms(1) by (simp add: le_floor_iff)
    then show ?thesis by (simp add: le_nat_iff)
  qed
  have hi: "nat \<lfloor>x\<rfloor> < 2 ^ Suc k"
  proof -
    have "\<lfloor>x\<rfloor> < (2::int) ^ Suc k" using assms(2) by (simp add: floor_less_iff)
    then show ?thesis using one by (simp add: nat_less_iff)
  qed
  show ?thesis using one bit_length_eqI [OF lo hi] by (simp add: binade_def)
qed

lemma fl_absorbs_one:
  fixes m :: nat
  assumes "4503599627370496 \<le> m" and "m < 9007199254740992"
  shows "fl (4 * real m + 1) = 4 * real m" and "fl (4 * real m - 1) = 4 * real m"
proof -
  have "real (4503599627370496::nat) \<le> real m"
    using assms(1) by (simp only: of_nat_le_iff)
  then have lo: "4503599627370496 \<le> real m" by simp
  have "real m < real (9007199254740992::nat)"
    using assms(2) by (simp only: of_nat_less_iff)
  then have hi: "real m < 9007199254740992" by simp
  have b1: "binade (4 * real m + 1) = 54"
    using binade_eqI [of 54 "4 * real m + 1"] lo hi by simp
  have f1: "\<lfloor>(4 * real m + 1) / 4\<rfloor> = int m"
    by (simp add: floor_eq_iff)
  have d1: "(4 * real m + 1) / 4 - real m = 1 / 4" by (simp add: add_divide_distrib)
  show "fl (4 * real m + 1) = 4 * real m"
    using lo by (simp add: fl_def b1 pow2_def rne_def f1 d1 Let_def add_divide_distrib)
  show "fl (4 * real m - 1) = 4 * real m"
  proof (cases "m = 4503599627370496")
    case True
    then show ?thesis by (simp add: fl_eval)
  next
    case False
    then have "4503599627370497 \<le> m" using assms(1) by simp
    then have "real (4503599627370497::nat) \<le> real m"
      by (simp only: of_nat_le_iff)
    then have lo': "4503599627370497 \<le> real m" by simp
    have b2: "binade (4 * real m - 1) = 54"
      using binade_eqI [of 54 "4 * real m - 1"] lo' hi by simp
    have f2: "\<lfloor>(4 * real m - 1) / 4\<rfloor> = int m - 1"
      by (simp add: floor_eq_iff)
    have f2': "\<lfloor>real m - 1 / 4\<rfloor> = int m - 1"
      by (simp add: floor_eq_iff)
    have d2: "(4 * real m - 1) / 4 - (real m - 1) = 3 / 4" by (simp add: diff_divide_distrib)
    show ?thesis
      using lo by (simp add: fl_def b2 pow2_def rne_def f2 f2' d2 Let_def diff_divide_distrib)
  qed
qed

lemma double_bound_saturates:
  fixes m :: nat
  assumes "4503599627370496 \<le> m" and "m < 9007199254740992"
  shows "fl (fl (4 * real m - 1) / fl (4 * real m + 1)) = 1"
proof -
  have "real m \<noteq> 0" using assms(1) by auto
  moreover have "fl 1 = 1" by (simp add: fl_eval)
  ultimately show ?thesis by (simp add: fl_absorbs_one [OF assms])
qed

lemma fl_literals:
  "fl 0.05 = 3602879701896397 / 72057594037927936"
  "fl 0.95 = 4278419646001971 / 4503599627370496"
  by (simp_all add: fl_eval)

lemma fl_normal_steps:
  "fl (2251799813685247 / 1125899906842624) = 2251799813685247 / 1125899906842624"
  "fl (1 / 1125899906842624) = 1 / 1125899906842624"
  "fl (2251799813685247) = 2251799813685247"
  "fl (4975141455881771 / 281474976710656) = 4975141455881771 / 281474976710656"
  "fl (1 / 2) = 1 / 2"
  "fl (3602879701896397 / 144115188075855872) = 3602879701896397 / 144115188075855872"
  "fl (140512308373959475 / 144115188075855872) = 8782019273372467 / 9007199254740992"
  "fl (14054734518363742486317587530285 / 10141204801825835211973625643008) = 6241555946912555 / 4503599627370496"
  "fl (73360707347195781 / 4503599627370496) = 573130526149967 / 35184372088832"
  "fl (85843819241020891 / 4503599627370496) = 2682619351281903 / 140737488355328"
  "fl (573130526149967 / 17592186044416) = 573130526149967 / 17592186044416"
  "fl (2682619351281903 / 70368744177664) = 2682619351281903 / 70368744177664"
  "fl (4507118644002559 / 32) = 4507118644002559 / 32"
  "fl (4507118644002623 / 32) = 4507118644002623 / 32"
  "fl (4507118644002559 / 4507118644002623) = 70368744177663 / 70368744177664"
  "fl (36000666866208407) = 36000666866208408"
  "fl (36000666866208409) = 36000666866208408"
  "fl (1) = 1"
  by (simp_all add: fl_eval)



lemma na_double:
  "normal_approx_ci_double demo_libm demo_ext_double ''pearson_r''
     (1125899906842623 / 1125899906842624) 5 (3602879701896397 / 72057594037927936) =
     Inr (70368744177663 / 70368744177664, 1)"
  by (simp add: normal_approx_ci_double_def se_numerator_func_double_def se_denominator_diff_def
        demo_libm_def demo_ext_double_def log_table_def sqrt_table_def exp_table_def ppf_double_def
        fl_normal_steps)



lemma resolve_demo_pearson: "resolve_corr_func demo_ext_double ''pearson_r'' None = Inr (Some near_one)"
  by (simp add: resolve_corr_func_def corr_functions_def demo_ext_double_def)

lemma near_one_sample:
  "near_one [1, 2, 3, 4, 5] [2, 4, 6, 8, 10] () =
     Inr (1125899906842623 / 1125899906842624, 1 / 1125899906842624)"
  by (simp add: near_one_def)


section \<open>The claims\<close>



text \<open>
  C2. On the normal-approximation branch, with more samples than the offset of the
  method, \<open>corr\<close> returns the bounds of the specification's formulas:
  \<open>z = 0.5 * ln ((1 + c) / (1 - c))\<close>, \<open>se = sqrt (numerator / (n - offset))\<close> with
  numerator and offset 0.437 and 4 for kendall_tau, \<open>1 + c\<^sup>2 / 2\<close> and 3 for spearman_rho,
  1 and 3 for pearson_r, \<open>z \<plusminus> norm_ppf (1 - alpha / 2) * se\<close>, and each bound
  \<open>(exp (2 * z\<^sub>b) - 1) / (exp (2 * z\<^sub>b) + 1)\<close>. Floats are read as reals.
\<close>

theorem corr_normal_approximation_formula:
  assumes "resolve_corr_func ext method custom_corr_func = Inr (Some corr_func)"
    and "corr_func x y kwargs = Inr (c, p)"
    and "\<not> skip_ci" and "\<bar>c\<bar> \<noteq> 1"
    and "select_path method bootstrap c = Inr NormalApproximation"
    and "spec_offset method < length x"
  shows "corr ext x y method skip_ci alpha ci bootstrap_samples bootstrap custom_corr_func kwargs g =
           (Inr (c,
                 Some (inverse_fisher (fisher_z c
                         - norm_ppf ext (1 - effective_alpha alpha ci / 2) * spec_se method c (length x))),
                 Some (inverse_fisher (fisher_z c
                         + norm_ppf ext (1 - effective_alpha alpha ci / 2) * spec_se method c (length x))),
                 p), g)"
proof -
  note np = normal_path_method [OF assms(5)]
  have na: "normal_approx_ci ext method c (length x) (effective_alpha alpha ci) =
           Inr (inverse_fisher (fisher_z c
                  - norm_ppf ext (1 - effective_alpha alpha ci / 2) * spec_se method c (length x)),
                inverse_fisher (fisher_z c
                  + norm_ppf ext (1 - effective_alpha alpha ci / 2) * spec_se method c (length x)))"
    using np assms(6) by (intro normal_approx_ci_spec) auto
  show ?thesis
    using assms(1-5) na
    by (simp add: corr_def return_tuple_def effective_alpha_def split: option.split)
qed

theorem corr_normal_approximation_formula_witness:
  "corr demo_ext [1, 2, 3, 4, 5] [1, 3, 2, 5, 4] ''kendall_tau'' False (1 / 20) None 2 False None () [] =
     (Inr (3 / 5,
           Some (inverse_fisher (fisher_z (3 / 5) - ppf_table (39 / 40) * spec_se ''kendall_tau'' (3 / 5) 5)),
           Some (inverse_fisher (fisher_z (3 / 5) + ppf_table (39 / 40) * spec_se ''kendall_tau'' (3 / 5) 5)),
           1 / 2), [])"
  using corr_normal_approximation_formula
          [OF resolve_demo_kendall tau_a_sample _ _ select_demo_normal, of False "1 / 20" None 2 "[]"]
  by (simp add: effective_alpha_def spec_offset_def demo_ext_def eval_nat_numeral)

text \<open>
  C3. On the resampling branch \<open>corr\<close> asks the sampler for a matrix of
  \<open>bootstrap_samples\<close> rows of \<open>n\<close> indices drawn from \<open>0..n-1\<close> with replacement (no
  weights: uniformly), takes \<open>x\<close> and \<open>y\<close> at the same indices of each row, calls the
  statistic function on each resampled pair with the same keyword arguments, keeps the
  coefficient of each result, and returns the \<open>alpha / 2\<close> and \<open>1 - alpha / 2\<close> quantiles of
  these coefficients as lower and upper bound, and the generator's new state.
\<close>

theorem corr_resampling_quantiles:
  assumes "resolve_corr_func ext method custom_corr_func = Inr (Some corr_func)"
    and "corr_func x y kwargs = Inr (c, p)"
    and "\<not> skip_ci" and "\<bar>c\<bar> \<noteq> 1"
    and "select_path method bootstrap c = Inr Resampling"
    and "random_choice ext [0..<length x] True (bootstrap_samples, length x) g = Inr (new_idx, g')"
    and "length new_idx = bootstrap_samples"
    and "list_all (list_all (\<lambda>i. i < length x)) new_idx"
    and "length y = length x"
    and "map (\<lambda>row. corr_func (map ((!) x) row) (map ((!) y) row) kwargs) new_idx = map Inr stats"
    and "np_quantile ext (map fst stats) (effective_alpha alpha ci / 2) = Inr lower"
    and "np_quantile ext (map fst stats) (1 - effective_alpha alpha ci / 2) = Inr upper"
  shows "corr ext x y method skip_ci alpha ci bootstrap_samples bootstrap custom_corr_func kwargs g =
           (Inr (c, Some lower, Some upper, p), g')"
proof -
  have loop: "bootstrap_loop corr_func (map (map ((!) x)) new_idx) (map (map ((!) y)) new_idx) kwargs
                [0..<bootstrap_samples] = Inr (map fst stats)"
    using bootstrap_loop_all_rows [of corr_func "map ((!) x)" "map ((!) y)" kwargs new_idx stats]
      assms(7,10) by simp
  have "bootstrap_ci ext corr_func x y kwargs (length x) bootstrap_samples (effective_alpha alpha ci) g =
          (Inr (lower, upper), g')"
    using assms(6,8,9,11,12) loop by (simp add: bootstrap_ci_def np_take_def)
  then show ?thesis
    using assms(1-5)
    by (simp add: corr_def return_tuple_def effective_alpha_def split: option.split)
qed

theorem corr_resampling_quantiles_witness:
  "corr demo_ext [1, 2, 3, 4, 5] [1, 3, 2, 5, 4] ''kendall_tau'' False (1 / 100) None 2 True None ()
     [0, 0, 1, 3, 3, 0, 1, 3, 3, 3, 2] =
     (Inr (3 / 5, Some (1401 / 2000), Some (1599 / 2000), 1 / 2), [2])"
proof -
  let ?x = "[1, 2, 3, 4, 5 :: real]" and ?y = "[1, 3, 2, 5, 4 :: real]"
  let ?idx = "[[0, 0, 1, 3, 3], [0, 1, 3, 3, 3 :: nat]]"
  let ?stats = "[(4 / 5, 1 / 2), (7 / 10, 1 / 2 :: real)]"
  have h3: "\<not> False" by simp
  have h4: "\<bar>3 / 5 :: real\<bar> \<noteq> 1" by simp
  have h6: "random_choice demo_ext [0..<length ?x] True (2, length ?x)
              [0, 0, 1, 3, 3, 0, 1, 3, 3, 3, 2] = Inr (?idx, [2])"
    by (simp add: demo_ext_def replay_choice_def upt_rec)
  have h7: "length ?idx = 2" by simp
  have h8: "list_all (list_all (\<lambda>i. i < length ?x)) ?idx" by simp
  have h9: "length ?y = length ?x" by simp
  have h10: "map (\<lambda>row. tau_a (map ((!) ?x) row) (map ((!) ?y) row) ()) ?idx = map Inr ?stats"
    by (simp add: tau_a_resample_1 tau_a_resample_2)
  have h11: "np_quantile demo_ext (map fst ?stats) (effective_alpha (1 / 100) None / 2) = Inr (1401 / 2000)"
    by (simp add: demo_ext_def linear_quantile_def Let_def effective_alpha_def)
  have h12: "np_quantile demo_ext (map fst ?stats) (1 - effective_alpha (1 / 100) None / 2) = Inr (1599 / 2000)"
    by (simp add: demo_ext_def linear_quantile_def Let_def effective_alpha_def)
  show ?thesis
    by (rule corr_resampling_quantiles
          [OF resolve_demo_kendall tau_a_sample h3 h4 select_demo_bootstrap h6 h7 h8 h9 h10 h11 h12])
qed

text \<open>
  C4, as stated (\<open>lower \<le> coefficient \<le> upper\<close> on both branches), fails on the
  resampling branch: the bounds are quantiles of the resampled coefficients, which need
  not enclose the coefficient of the full sample. Here the method is customized with
  Kendall's tau-a, the samples are \<open>[1, 2, 3, 4, 5]\<close> and \<open>[1, 3, 2, 5, 4]\<close> (coefficient
  \<open>3 / 5\<close>), \<open>alpha\<close> is 0.05, and the two resamples drawn are the index rows
  \<open>[0, 1, 3, 3, 3]\<close> and \<open>[0, 0, 1, 3, 3]\<close>, of coefficients \<open>7 / 10\<close> and \<open>4 / 5\<close>: the
  lower bound \<open>281 / 400\<close> is above the coefficient.
\<close>

theorem resampling_bounds_counterexample:
  "corr demo_ext [1, 2, 3, 4, 5] [1, 3, 2, 5, 4] ''customized'' False (1 / 20) None 2 False
      (Some tau_a) () [0, 1, 3, 3, 3, 0, 0, 1, 3, 3]
     = (Inr (3 / 5, Some (281 / 400), Some (319 / 400), 1 / 2), [])
   \<and> \<not> ((281 / 400 :: real) \<le> 3 / 5)"
proof -
  have sel: "select_path ''customized'' False (3 / 5) = Inr Resampling"
    by (simp add: select_path_def param_corr_thres_def)
  have deg: "(\<bar>3 / 5 :: real\<bar> = 1) = False" by simp
  have len: "length [1, 2, 3, 4, 5 :: real] = 5" by simp
  have "corr demo_ext [1, 2, 3, 4, 5] [1, 3, 2, 5, 4] ''customized'' False (1 / 20) None 2 False
      (Some tau_a) () [0, 1, 3, 3, 3, 0, 0, 1, 3, 3]
     = (Inr (3 / 5, Some (281 / 400), Some (319 / 400), 1 / 2), [])"
    unfolding corr_def
    by (simp only: resolve_customized tau_a_sample sel deg len boot_sample return_tuple_def
          Let_def sum.case option.case prod.case ci_path.case if_False)
  moreover have "\<not> ((281 / 400 :: real) \<le> 3 / 5)" by simp
  ultimately show ?thesis by (rule conjI)
qed

text \<open>
  C4, amended. On the normal-approximation branch, in exact arithmetic, with more
  samples than the offset of the method and a non-negative normal quantile
  \<open>norm_ppf (1 - alpha / 2)\<close> (as it is for \<open>alpha \<le> 1\<close>), the returned tuple satisfies
  \<open>lower \<le> coefficient \<le> upper\<close>.
\<close>

theorem corr_normal_bounds_ordered:
  assumes "resolve_corr_func ext method custom_corr_func = Inr (Some corr_func)"
    and "corr_func x y kwargs = Inr (c, p)"
    and "\<not> skip_ci" and "\<bar>c\<bar> \<noteq> 1"
    and "select_path method bootstrap c = Inr NormalApproximation"
    and "spec_offset method < length x"
    and "0 \<le> norm_ppf ext (1 - effective_alpha alpha ci / 2)"
  shows "\<exists>lower upper.
           corr ext x y method skip_ci alpha ci bootstrap_samples bootstrap custom_corr_func kwargs g =
             (Inr (c, Some lower, Some upper, p), g)
           \<and> lower \<le> c \<and> c \<le> upper"
proof -
  define w where "w = norm_ppf ext (1 - effective_alpha alpha ci / 2) * spec_se method c (length x)"
  note np = normal_path_method [OF assms(5)]
  have na: "normal_approx_ci ext method c (length x) (effective_alpha alpha ci) =
           Inr (inverse_fisher (fisher_z c - w), inverse_fisher (fisher_z c + w))"
    unfolding w_def using np assms(6) by (intro normal_approx_ci_spec) auto
  have eq: "corr ext x y method skip_ci alpha ci bootstrap_samples bootstrap custom_corr_func kwargs g =
           (Inr (c, Some (inverse_fisher (fisher_z c - w)), Some (inverse_fisher (fisher_z c + w)), p), g)"
    using assms(1-5) na
    by (simp add: corr_def return_tuple_def effective_alpha_def split: option.split)
  have "0 \<le> spec_numerator method c / (real (length x) - real (spec_offset method))"
    using assms(6) by (intro divide_nonneg_nonneg) (simp_all add: spec_numerator_def)
  then have "0 \<le> spec_se method c (length x)" by (simp add: spec_se_def)
  then have w: "0 \<le> w" unfolding w_def using assms(7) by simp
  have mid: "inverse_fisher (fisher_z c) = c" using np by (intro inverse_fisher_fisher_z) simp
  have "inverse_fisher (fisher_z c - w) \<le> inverse_fisher (fisher_z c)"
    using w by (intro inverse_fisher_mono) simp
  moreover have "inverse_fisher (fisher_z c) \<le> inverse_fisher (fisher_z c + w)"
    using w by (intro inverse_fisher_mono) simp
  ultimately show ?thesis using eq mid by auto
qed

theorem corr_normal_bounds_ordered_witness:
  "\<exists>lower upper.
     corr demo_ext [1, 2, 3, 4, 5] [1, 3, 2, 5, 4] ''kendall_tau'' False (1 / 20) None 2 False None () [] =
       (Inr (3 / 5, Some lower, Some upper, 1 / 2), [])
     \<and> lower \<le> 3 / 5 \<and> 3 / 5 \<le> upper"
  using corr_normal_bounds_ordered
          [OF resolve_demo_kendall tau_a_sample _ _ select_demo_normal, of False "1 / 20" None 2 "[]"]
  by (simp add: effective_alpha_def spec_offset_def demo_ext_def ppf_table_def eval_nat_numeral)

text \<open>
  C5. When \<open>skip_ci\<close> is false and the statistic function returns a coefficient \<open>c\<close>
  with \<open>\<bar>c\<bar> = 1\<close>, \<open>corr\<close> returns \<open>(c, c, c, p)\<close> and leaves the generator untouched. The
  transform is not evaluated: at such a coefficient it would divide by zero or take the
  logarithm of zero, and the normal approximation would not return bounds.
\<close>

theorem corr_degenerate:
  assumes "resolve_corr_func ext method custom_corr_func = Inr (Some corr_func)"
    and "corr_func x y kwargs = Inr (c, p)"
    and "\<not> skip_ci" and "\<bar>c\<bar> = 1"
  shows "corr ext x y method skip_ci alpha ci bootstrap_samples bootstrap custom_corr_func kwargs g =
           (Inr (c, Some c, Some c, p), g)
       \<and> isl (normal_approx_ci ext method c (length x) (effective_alpha alpha ci))"
proof -
  have "c = 1 \<or> c = -1" using assms(4) by arith
  then have "isl (normal_approx_ci ext method c (length x) (effective_alpha alpha ci))"
    by (auto simp: normal_approx_ci_def Let_def split: option.split)
  then show ?thesis using assms by (simp add: corr_def)
qed

theorem corr_degenerate_witness:
  "corr demo_ext [1, 2, 3] [1, 2, 3] ''kendall_tau'' False (1 / 20) None 2 False None () [] =
     (Inr (1, Some 1, Some 1, 1 / 2), [])
   \<and> isl (normal_approx_ci demo_ext ''kendall_tau'' 1 3 (1 / 20))"
proof -
  have t: "tau_a [1, 2, 3] [1, 2, 3] () = Inr (1, 1 / 2)"
    by (simp add: tau_a_def)
  show ?thesis
    using corr_degenerate [OF resolve_demo_kendall t, of False "1 / 20" None 2 False "[]"]
    by (simp add: effective_alpha_def eval_nat_numeral)
qed

text \<open>
  C6. With \<open>skip_ci\<close> true \<open>corr\<close> returns \<open>(c, None, None, p)\<close> for the pair \<open>(c, p)\<close>
  of the statistic function on the full samples, with no further computation (the
  generator's state is unchanged), and whenever the call with \<open>skip_ci\<close> false on the
  same inputs and generator state returns a tuple, its coefficient and p-value are the
  same \<open>c\<close> and \<open>p\<close>.
\<close>

theorem corr_skip_ci:
  assumes "resolve_corr_func ext method custom_corr_func = Inr (Some corr_func)"
    and "corr_func x y kwargs = Inr (c, p)"
  shows "corr ext x y method True alpha ci bootstrap_samples bootstrap custom_corr_func kwargs g =
           (Inr (c, None, None, p), g)
       \<and> (case corr ext x y method False alpha ci bootstrap_samples bootstrap custom_corr_func kwargs g of
            (Inr (c', lower, upper, p'), g') \<Rightarrow> c' = c \<and> p' = p
          | (Inl e, g') \<Rightarrow> True)"
  using assms
  by (auto simp: corr_def return_tuple_def Let_def split: sum.split ci_path.split prod.split)

theorem corr_skip_ci_witness:
  "corr demo_ext [1, 2, 3, 4, 5] [1, 3, 2, 5, 4] ''kendall_tau'' True (1 / 20) None 2 False None () [] =
     (Inr (3 / 5, None, None, 1 / 2), [])
   \<and> (case corr demo_ext [1, 2, 3, 4, 5] [1, 3, 2, 5, 4] ''kendall_tau'' False (1 / 20) None 2 False None () [] of
        (Inr (c', lower, upper, p'), g') \<Rightarrow> c' = 3 / 5 \<and> p' = 1 / 2
      | (Inl e, g') \<Rightarrow> True)"
  using corr_skip_ci [OF resolve_demo_kendall tau_a_sample, of "1 / 20" None 2 False "[]"]
  by simp

text \<open>
  C7. The method customized with no function supplied does not raise the \<open>KeyError\<close>
  of an unknown method (\<open>corr_KeyError_unknown\<close>): the key is in \<open>corr_functions\<close>, its
  value \<open>None\<close> is bound to \<open>corr_func\<close>, and calling it raises \<open>TypeError\<close>, whatever
  the other arguments are.
\<close>

theorem corr_customized_without_function:
  "corr ext x y ''customized'' skip_ci alpha ci bootstrap_samples bootstrap None kwargs g = (Inl TypeError, g)"
  by (simp add: corr_def resolve_corr_func_def corr_functions_def)



text \<open>
  C9. For the method customized with a function supplied, line 123 always selects the
  resampling, since no \<open>\<bar>c\<bar>\<close> is below 0; the normal approximation, which would raise
  \<open>KeyError\<close> on the missing key of \<open>se_numerator_func\<close>, is never part of the result: \<open>corr\<close>
  is the skip, the degenerate case or the bootstrap.
\<close>

theorem corr_customized_resamples:
  "select_path ''customized'' bootstrap c = Inr Resampling
   \<and> normal_approx_ci ext ''customized'' c n a = Inl KeyError
   \<and> corr ext x y ''customized'' skip_ci alpha ci bootstrap_samples bootstrap (Some f) kwargs g =
       (case f x y kwargs of
          Inl e \<Rightarrow> (Inl e, g)
        | Inr (c, p) \<Rightarrow>
            if skip_ci then (Inr (c, None, None, p), g)
            else if \<bar>c\<bar> = 1 then (Inr (c, Some c, Some c, p), g)
            else return_tuple c p
                   (bootstrap_ci ext f x y kwargs (length x) bootstrap_samples
                      (effective_alpha alpha ci) g))"
  by (auto simp: corr_def resolve_corr_func_def select_path_def param_corr_thres_def
        normal_approx_ci_def se_numerator_func_def effective_alpha_def
      split: sum.split option.split)

text \<open>
  C10, as stated (the bounds of the normal approximation never reach \<open>-1\<close> or \<open>1\<close>),
  fails in double precision. For \<open>pearson_r\<close> with a coefficient of \<open>1 - 2\<^sup>-\<^sup>5\<^sup>0\<close>, five
  samples and \<open>alpha = 0.05\<close>, \<open>z_upper\<close> is about 19.06, \<open>np.exp (2 * z_upper)\<close> is about
  \<open>3.6 * 10\<^sup>1\<^sup>6\<close>, above \<open>2\<^sup>5\<^sup>4\<close>, and the upper bound returned is exactly \<open>1\<close> although the
  coefficient is not.
\<close>

theorem normal_bound_reaches_one_counterexample:
  "corr_double demo_libm demo_ext_double [1, 2, 3, 4, 5] [2, 4, 6, 8, 10] ''pearson_r'' False
      (fl 0.05) None 5000 False None () []
     = (Inr (1125899906842623 / 1125899906842624, Some (70368744177663 / 70368744177664), Some 1,
             1 / 1125899906842624), [])
   \<and> \<bar>1125899906842623 / 1125899906842624 :: real\<bar> \<noteq> 1"
proof -
  have sel: "select_path ''pearson_r'' False (1125899906842623 / 1125899906842624) =
               Inr NormalApproximation"
    by (simp add: select_path_def param_corr_thres_def)
  have deg: "(\<bar>1125899906842623 / 1125899906842624 :: real\<bar> = 1) = False" by simp
  have len: "length [1, 2, 3, 4, 5 :: real] = 5" by simp
  have "corr_double demo_libm demo_ext_double [1, 2, 3, 4, 5] [2, 4, 6, 8, 10] ''pearson_r'' False
      (fl 0.05) None 5000 False None () []
     = (Inr (1125899906842623 / 1125899906842624, Some (70368744177663 / 70368744177664), Some 1,
             1 / 1125899906842624), [])"
    unfolding corr_double_def
    by (simp only: resolve_demo_pearson near_one_sample sel deg len fl_literals na_double
          return_tuple_def Let_def sum.case option.case prod.case ci_path.case if_False)
  then show ?thesis using deg by simp
qed

text \<open>
  C10, amended. On the normal-approximation branch, in exact arithmetic and with more
  samples than the offset of the method, both returned bounds lie strictly between
  \<open>-1\<close> and \<open>1\<close>.
\<close>

theorem corr_normal_bounds_open:
  assumes "resolve_corr_func ext method custom_corr_func = Inr (Some corr_func)"
    and "corr_func x y kwargs = Inr (c, p)"
    and "\<not> skip_ci" and "\<bar>c\<bar> \<noteq> 1"
    and "select_path method bootstrap c = Inr NormalApproximation"
    and "spec_offset method < length x"
  shows "\<exists>lower upper.
           corr ext x y method skip_ci alpha ci bootstrap_samples bootstrap custom_corr_func kwargs g =
             (Inr (c, Some lower, Some upper, p), g)
           \<and> - 1 < lower \<and> lower < 1 \<and> - 1 < upper \<and> upper < 1"
proof -
  define w where "w = norm_ppf ext (1 - effective_alpha alpha ci / 2) * spec_se method c (length x)"
  note np = normal_path_method [OF assms(5)]
  have na: "normal_approx_ci ext method c (length x) (effective_alpha alpha ci) =
           Inr (inverse_fisher (fisher_z c - w), inverse_fisher (fisher_z c + w))"
    unfolding w_def using np assms(6) by (intro normal_approx_ci_spec) auto
  have eq: "corr ext x y method skip_ci alpha ci bootstrap_samples bootstrap custom_corr_func kwargs g =
           (Inr (c, Some (inverse_fisher (fisher_z c - w)), Some (inverse_fisher (fisher_z c + w)), p), g)"
    using assms(1-5) na
    by (simp add: corr_def return_tuple_def effective_alpha_def split: option.split)
  show ?thesis
    using eq inverse_fisher_range [of "fisher_z c - w"] inverse_fisher_range [of "fisher_z c + w"]
    by auto
qed

theorem corr_normal_bounds_open_witness:
  "\<exists>lower upper.
     corr demo_ext [1, 2, 3, 4, 5] [1, 3, 2, 5, 4] ''kendall_tau'' False (1 / 20) None 2 False None () [] =
       (Inr (3 / 5, Some lower, Some upper, 1 / 2), [])
     \<and> - 1 < lower \<and> lower < 1 \<and> - 1 < upper \<and> upper < 1"
  using corr_normal_bounds_open
          [OF resolve_demo_kendall tau_a_sample _ _ select_demo_normal, of False "1 / 20" None 2 "[]"]
  by (simp add: spec_offset_def)

end
